theory Spec2Isabelle
  imports Complex_Main "HOL-Library.Sublist"
begin

section \<open>Instants and the Date operations the scheduler uses\<close>

text \<open>
  A JavaScript \<open>Date\<close> holds a time value: the milliseconds since the epoch, an integer.
  The scheduler reads the clock with \<open>new Date()\<close>, adds milliseconds through \<open>getTime\<close>,
  and uses three local-time operations: \<open>getHours\<close>, \<open>setHours(h, 0, 0, 0)\<close> and
  \<open>setDate(getDate() + 1)\<close>. They are written here as ECMAScript defines them, with the
  local time zone as a fixed offset \<open>tza\<close> in milliseconds (no daylight-saving
  transitions). Time values stay far inside the range of \<open>TimeClip\<close>, which is left out.
\<close>

type_synonym instant = int

definition msPerMinute :: int where
  "msPerMinute = 60 * 1000"

definition msPerHour :: int where
  "msPerHour = 60 * 60 * 1000"

definition msPerDay :: int where
  "msPerDay = 24 * 60 * 60 * 1000"

definition LocalTime :: "int \<Rightarrow> instant \<Rightarrow> int" where
  "LocalTime tza t = t + tza"

definition UTC :: "int \<Rightarrow> int \<Rightarrow> instant" where
  "UTC tza t = t - tza"

definition Day :: "int \<Rightarrow> int" where
  "Day t = t div msPerDay"

definition TimeWithinDay :: "int \<Rightarrow> int" where
  "TimeWithinDay t = t mod msPerDay"

definition HourFromTime :: "int \<Rightarrow> int" where
  "HourFromTime t = (t div msPerHour) mod 24"

definition MinFromTime :: "int \<Rightarrow> int" where
  "MinFromTime t = (t div msPerMinute) mod 60"

definition MakeTime :: "int \<Rightarrow> int \<Rightarrow> int \<Rightarrow> int \<Rightarrow> int" where
  "MakeTime h m s ms = h * msPerHour + m * msPerMinute + s * 1000 + ms"

definition MakeDate :: "int \<Rightarrow> int \<Rightarrow> int" where
  "MakeDate day time = day * msPerDay + time"

definition getHours :: "int \<Rightarrow> instant \<Rightarrow> int" where
  "getHours tza t = HourFromTime (LocalTime tza t)"

text \<open>\<open>d.setHours(h, m, s, ms)\<close>: the same local day, the time within the day replaced.\<close>

definition setHours :: "int \<Rightarrow> instant \<Rightarrow> int \<Rightarrow> int \<Rightarrow> int \<Rightarrow> int \<Rightarrow> instant" where
  "setHours tza t h m s ms = UTC tza (MakeDate (Day (LocalTime tza t)) (MakeTime h m s ms))"

text \<open>
  \<open>d.setDate(d.getDate() + 1)\<close>: ECMAScript's \<open>MakeDay(year, month, date)\<close> is the day
  number of the first of the month plus \<open>date - 1\<close>, so with the date one more than the
  current one it is the day number after the current local day; the time within the day
  is kept.
\<close>

definition setDate_next :: "int \<Rightarrow> instant \<Rightarrow> instant" where
  "setDate_next tza t =
     UTC tza (MakeDate (Day (LocalTime tza t) + 1) (TimeWithinDay (LocalTime tza t)))"

section \<open>The next-run computation\<close>

text \<open>
  \<open>calculateNextRun\<close> of \<open>scheduler.service.ts\<close>. Its \<open>new Date()\<close> is the argument
  \<open>now\<close>: the clock at the moment of the call.
\<close>

definition calculateNextRun :: "int \<Rightarrow> string \<Rightarrow> instant \<Rightarrow> instant" where
  "calculateNextRun tza cronExpression now =
     (if cronExpression = ''* * * * *'' then now + 60 * 1000
      else if cronExpression = ''0 * * * *'' then now + 60 * 60 * 1000
      else if cronExpression = ''0 0 * * *'' then
        (let tomorrow = now;
             tomorrow = setDate_next tza tomorrow;
             tomorrow = setHours tza tomorrow 0 0 0 0
         in tomorrow)
      else if cronExpression = ''0 9 * * *'' then
        (let next9AM = now;
             next9AM = setHours tza next9AM 9 0 0 0
         in if getHours tza now \<ge> 9 then setDate_next tza next9AM else next9AM)
      else now + 60 * 60 * 1000)"

section \<open>Job records and the jobs table\<close>

text \<open>
  A row of the \<open>jobs\<close> table (the migration and the Prisma model): \<open>id\<close> is the
  primary key, \<open>description\<close>, \<open>lastRun\<close> and \<open>nextRun\<close> are nullable.
\<close>

record job =
  job_id :: int
  name :: string
  description :: "string option"
  schedule :: string
  isActive :: bool
  lastRun :: "instant option"
  nextRun :: "instant option"
  createdAt :: instant
  updatedAt :: instant

datatype error = UnknownJobName string | ExecutorRejected | RecordNotFound

text \<open>
  The \<open>data\<close> argument of \<open>prisma.job.update\<close> is a partial record: a field that is
  absent from it (\<open>None\<close> here) keeps its stored value. The column \<open>updatedAt\<close> is
  declared \<open>@updatedAt\<close>, so the store sets it on every update.
\<close>

record job_data =
  d_name :: "string option"
  d_description :: "string option option"
  d_schedule :: "string option"
  d_isActive :: "bool option"
  d_lastRun :: "instant option option"
  d_nextRun :: "instant option option"

definition no_data :: job_data where
  "no_data = \<lparr>d_name = None, d_description = None, d_schedule = None, d_isActive = None,
     d_lastRun = None, d_nextRun = None\<rparr>"

definition apply_data :: "job_data \<Rightarrow> instant \<Rightarrow> job \<Rightarrow> job" where
  "apply_data d t j =
     j\<lparr>name := (case d_name d of None \<Rightarrow> name j | Some v \<Rightarrow> v),
       description := (case d_description d of None \<Rightarrow> description j | Some v \<Rightarrow> v),
       schedule := (case d_schedule d of None \<Rightarrow> schedule j | Some v \<Rightarrow> v),
       isActive := (case d_isActive d of None \<Rightarrow> isActive j | Some v \<Rightarrow> v),
       lastRun := (case d_lastRun d of None \<Rightarrow> lastRun j | Some v \<Rightarrow> v),
       nextRun := (case d_nextRun d of None \<Rightarrow> nextRun j | Some v \<Rightarrow> v),
       updatedAt := t\<rparr>"

text \<open>\<open>prisma.job.update({where: {id}, data})\<close>: raises when no row has the id.\<close>

definition job_update :: "job list \<Rightarrow> int \<Rightarrow> job_data \<Rightarrow> instant \<Rightarrow> error + job list" where
  "job_update tbl i d t =
     (if i \<in> job_id ` set tbl
      then Inr (map (\<lambda>j. if job_id j = i then apply_data d t j else j) tbl)
      else Inl RecordNotFound)"

text \<open>\<open>prisma.job.findMany({where: {isActive: true}})\<close>.\<close>

definition findMany_active :: "job list \<Rightarrow> job list" where
  "findMany_active tbl = filter isActive tbl"

section \<open>Executors and the factory\<close>

text \<open>
  \<open>JobExecutor\<close> is an interface with one method, \<open>execute(jobId, jobName)\<close>, returning
  a promise. An implementation is modelled by what its promise does when the method is
  called at a given clock reading: it resolves or rejects after some milliseconds, or
  it stays pending for ever.
\<close>

datatype run = Resolved nat | Rejected nat | Pending

type_synonym JobExecutor = "int \<Rightarrow> string \<Rightarrow> instant \<Rightarrow> run"

text \<open>
  \<open>EmailJob.execute\<close>: two console lines around \<open>delay(2000)\<close>. Its promise resolves
  when the timer fires, taken here as exactly 2000 milliseconds after the call; it never
  rejects.
\<close>

definition EmailJob :: JobExecutor where
  "EmailJob jobId jobName t = Resolved 2000"

text \<open>
  Strings are lists of characters with code points below 256. \<open>toLowerCase\<close> maps the
  capital letters of that range (A to Z, and U+00C0 to U+00DE without the
  multiplication sign U+00D7) to the code point 32 above, which is the same character
  with bit 5 set (the bit is clear in both ranges); \<open>includesStr\<close> is the substring
  test of \<open>String.includes\<close>.
\<close>

fun lower_char :: "char \<Rightarrow> char" where
  "lower_char (Char b0 b1 b2 b3 b4 b5 b6 b7) =
     (let n = (of_char (Char b0 b1 b2 b3 b4 b5 b6 b7) :: nat)
      in if (65 \<le> n \<and> n \<le> 90) \<or> (192 \<le> n \<and> n \<le> 222 \<and> n \<noteq> 215)
         then Char b0 b1 b2 b3 b4 True b6 b7
         else Char b0 b1 b2 b3 b4 b5 b6 b7)"

definition toLowerCase :: "string \<Rightarrow> string" where
  "toLowerCase s = map lower_char s"

fun includesStr :: "string \<Rightarrow> string \<Rightarrow> bool" where
  "includesStr [] p = (p = [])"
| "includesStr (c # cs) p = (prefix p (c # cs) \<or> includesStr cs p)"

text \<open>\<open>JobFactory.createJob\<close> of \<open>job-factory.ts\<close>, the file the scheduler imports.\<close>

definition createJob :: "string \<Rightarrow> error + JobExecutor" where
  "createJob jobName =
     (let name = toLowerCase jobName
      in if includesStr name ''email'' \<or>
            includesStr name ''notification'' \<or>
            includesStr name ''send''
         then Inr EmailJob
         else Inr EmailJob)"

text \<open>The second \<open>JobFactory.createJob\<close> of the repository (the unnamed file).\<close>

definition createJob_part_005 :: "string \<Rightarrow> error + JobExecutor" where
  "createJob_part_005 jobName =
     (if includesStr (toLowerCase jobName) ''email'' then Inr EmailJob
      else Inl (UnknownJobName jobName))"

section \<open>The scheduler service\<close>

text \<open>
  What the service is deployed with: the zone offset of the host, \<open>cron.validate\<close> of
  the \<open>node-cron\<close> package (\<open>None\<close> when the call raises), and the job factory.
\<close>

record env =
  tza :: int
  cron_validate :: "string \<Rightarrow> bool option"
  factory :: "string \<Rightarrow> error + JobExecutor"

datatype log_entry =
  RunningJob string int
| JobCompleted int instant
| ErrorExecuting int error

text \<open>
  The state the service acts on: the jobs table, the wall clock and the logger's output.
  The clock moves only while an executor runs, the store is reachable, and nobody else
  writes to the table during a tick.
\<close>

record world =
  jobs :: "job list"
  clock :: instant
  logs :: "log_entry list"

text \<open>
  \<open>shouldRunBasedOnCron\<close>: the difference in milliseconds divided by 1000 and by 60.
  JavaScript divides in floating point; on integer differences the comparison with 1
  comes out as in exact arithmetic.
\<close>

definition shouldRunBasedOnCron :: "instant \<Rightarrow> instant \<Rightarrow> string \<Rightarrow> bool" where
  "shouldRunBasedOnCron lastRun' now cronExpression =
     (let minutesSinceLastRun = real_of_int (now - lastRun') / 1000 / 60
      in minutesSinceLastRun \<ge> 1)"

text \<open>
  \<open>shouldJobRun\<close>. A \<open>Date\<close> object is truthy, so \<open>!job.lastRun\<close> holds exactly when the
  column is null. A raising \<open>cron.validate\<close> is caught and the function then returns
  false; the error line it logs there is the one effect left out.
\<close>

definition shouldJobRun :: "(string \<Rightarrow> bool option) \<Rightarrow> job \<Rightarrow> instant \<Rightarrow> bool" where
  "shouldJobRun validate job now =
     (case lastRun job of
        None \<Rightarrow> True
      | Some lr \<Rightarrow>
          if (case nextRun job of None \<Rightarrow> False | Some nr \<Rightarrow> now \<ge> nr) then True
          else (case validate (schedule job) of
                  Some True \<Rightarrow> shouldRunBasedOnCron lr now (schedule job)
                | Some False \<Rightarrow> False
                | None \<Rightarrow> False))"

text \<open>
  \<open>executeJob\<close>. Every exception inside is caught and logged. The result is \<open>None\<close>
  when the executor's promise stays pending: the \<open>await\<close> never resumes.
\<close>

definition executeJob :: "env \<Rightarrow> int \<Rightarrow> string \<Rightarrow> string \<Rightarrow> world \<Rightarrow> world option" where
  "executeJob E jobId jobName schedule' w =
     (let startTime = clock w in
      case factory E jobName of
        Inl err \<Rightarrow> Some (w\<lparr>logs := logs w @ [ErrorExecuting jobId err]\<rparr>)
      | Inr jobExecutor \<Rightarrow>
          (case jobExecutor jobId jobName (clock w) of
             Pending \<Rightarrow> None
           | Rejected ms \<Rightarrow>
               Some (w\<lparr>clock := clock w + int ms,
                       logs := logs w @ [ErrorExecuting jobId ExecutorRejected]\<rparr>)
           | Resolved ms \<Rightarrow>
               (let w1 = w\<lparr>clock := clock w + int ms\<rparr>;
                    nextRun' = calculateNextRun (tza E) schedule' (clock w1)
                in case job_update (jobs w1) jobId
                          (no_data\<lparr>d_lastRun := Some (Some startTime),
                                   d_nextRun := Some (Some nextRun')\<rparr>) (clock w1) of
                     Inl err \<Rightarrow> Some (w1\<lparr>logs := logs w1 @ [ErrorExecuting jobId err]\<rparr>)
                   | Inr tbl \<Rightarrow>
                       Some (w1\<lparr>jobs := tbl,
                                logs := logs w1 @ [JobCompleted jobId nextRun']\<rparr>))))"

text \<open>The \<open>for\<close> loop of \<open>checkAndRunJobs\<close> over the fetched rows, with \<open>now\<close> read once.\<close>

fun run_jobs :: "env \<Rightarrow> instant \<Rightarrow> job list \<Rightarrow> world \<Rightarrow> world option" where
  "run_jobs E now [] w = Some w"
| "run_jobs E now (job # rest) w =
     (if shouldJobRun (cron_validate E) job now
      then (case executeJob E (job_id job) (name job) (schedule job)
                   (w\<lparr>logs := logs w @ [RunningJob (name job) (job_id job)]\<rparr>) of
              None \<Rightarrow> None
            | Some w' \<Rightarrow> run_jobs E now rest w')
      else run_jobs E now rest w)"

text \<open>\<open>checkAndRunJobs\<close>: one tick of the scheduler.\<close>

definition checkAndRunJobs :: "env \<Rightarrow> world \<Rightarrow> world option" where
  "checkAndRunJobs E w =
     (let fetched = findMany_active (jobs w);
          now = clock w
      in run_jobs E now fetched w)"

section \<open>The cron evaluator of the specification\<close>

text \<open>
  The repository has no cron evaluator. The definitions of this section follow the
  specification's words, for comparison with \<open>calculateNextRun\<close> and \<open>shouldJobRun\<close>:
  five space-separated fields (minute 0 to 59, hour 0 to 23, day of month 1 to 31,
  month 1 to 12, day of week 0 to 6), each \<open>*\<close> or a comma-separated list of literals.
\<close>

datatype cron_field = Any | Values "int list"

record cron_expr =
  f_minute :: cron_field
  f_hour :: cron_field
  f_dom :: cron_field
  f_month :: cron_field
  f_dow :: cron_field

fun split_on :: "char \<Rightarrow> string \<Rightarrow> string list" where
  "split_on c [] = [[]]"
| "split_on c (x # xs) =
     (if x = c then [] # split_on c xs
      else (case split_on c xs of [] \<Rightarrow> [[x]] | w # ws \<Rightarrow> (x # w) # ws))"

definition digit_of :: "char \<Rightarrow> int option" where
  "digit_of = map_of
     [(CHR ''0'', 0), (CHR ''1'', 1), (CHR ''2'', 2), (CHR ''3'', 3), (CHR ''4'', 4),
      (CHR ''5'', 5), (CHR ''6'', 6), (CHR ''7'', 7), (CHR ''8'', 8), (CHR ''9'', 9)]"

fun parse_digits :: "int \<Rightarrow> string \<Rightarrow> int option" where
  "parse_digits acc [] = Some acc"
| "parse_digits acc (c # cs) =
     (case digit_of c of None \<Rightarrow> None | Some d \<Rightarrow> parse_digits (10 * acc + d) cs)"

definition parse_literal :: "string \<Rightarrow> int option" where
  "parse_literal s = (if s = [] then None else parse_digits 0 s)"

definition parse_field :: "int \<Rightarrow> int \<Rightarrow> string \<Rightarrow> cron_field option" where
  "parse_field lo hi s =
     (if s = ''*'' then Some Any
      else (case those (map parse_literal (split_on CHR '','' s)) of
              None \<Rightarrow> None
            | Some ns \<Rightarrow>
                if list_all (\<lambda>n. lo \<le> n \<and> n \<le> hi) ns then Some (Values ns) else None))"

definition spec_parse :: "string \<Rightarrow> cron_expr option" where
  "spec_parse s =
     (case split_on CHR '' '' s of
        [a, b, c, d, e] \<Rightarrow>
          (case (parse_field 0 59 a, parse_field 0 23 b, parse_field 1 31 c,
                 parse_field 1 12 d, parse_field 0 6 e) of
             (Some mi, Some h, Some dm, Some mo, Some dw) \<Rightarrow>
               Some \<lparr>f_minute = mi, f_hour = h, f_dom = dm, f_month = mo, f_dow = dw\<rparr>
           | _ \<Rightarrow> None)
      | _ \<Rightarrow> None)"

text \<open>\<open>validate(expression)\<close>: false on a malformed expression, never raising.\<close>

definition spec_validate :: "string \<Rightarrow> bool" where
  "spec_validate s = (spec_parse s \<noteq> None)"

text \<open>
  The calendar components of a local time value: the day of the week as ECMAScript
  defines it (0 is Sunday), month and day of the month from the day number by the
  usual era arithmetic of the Gregorian calendar.
\<close>

definition WeekDay :: "int \<Rightarrow> int" where
  "WeekDay t = (Day t + 4) mod 7"

definition civil_from_days :: "int \<Rightarrow> int \<times> int \<times> int" where
  "civil_from_days days =
     (let z = days + 719468;
          era = z div 146097;
          doe = z - era * 146097;
          yoe = (doe - doe div 1460 + doe div 36524 - doe div 146096) div 365;
          doy = doe - (365 * yoe + yoe div 4 - yoe div 100);
          mp = (5 * doy + 2) div 153;
          d = doy - (153 * mp + 2) div 5 + 1;
          m = (if mp < 10 then mp + 3 else mp - 9);
          y = yoe + era * 400 + (if m \<le> 2 then 1 else 0)
      in (y, m, d))"

definition MonthFromTime :: "int \<Rightarrow> int" where
  "MonthFromTime t = fst (snd (civil_from_days (Day t))) - 1"

definition DateFromTime :: "int \<Rightarrow> int" where
  "DateFromTime t = snd (snd (civil_from_days (Day t)))"

fun field_matches :: "cron_field \<Rightarrow> int \<Rightarrow> bool" where
  "field_matches Any v = True"
| "field_matches (Values ns) v = (v \<in> set ns)"

text \<open>
  Day of month and day of week: when both are restricted the instant matches if it
  satisfies either of them.
\<close>

definition day_matches :: "cron_field \<Rightarrow> cron_field \<Rightarrow> int \<Rightarrow> int \<Rightarrow> bool" where
  "day_matches dm dw date wd =
     (if dm \<noteq> Any \<and> dw \<noteq> Any then field_matches dm date \<or> field_matches dw wd
      else field_matches dm date \<and> field_matches dw wd)"

definition expr_matches :: "cron_expr \<Rightarrow> int \<Rightarrow> bool" where
  "expr_matches e lt =
     (field_matches (f_minute e) (MinFromTime lt) \<and>
      field_matches (f_hour e) (HourFromTime lt) \<and>
      field_matches (f_month e) (MonthFromTime lt + 1) \<and>
      day_matches (f_dom e) (f_dow e) (DateFromTime lt) (WeekDay lt))"

text \<open>
  \<open>matches(expression, instant)\<close>: all five fields match the components of the instant,
  which is truncated to minute resolution (seconds and milliseconds play no part).
\<close>

definition spec_matches :: "int \<Rightarrow> string \<Rightarrow> instant \<Rightarrow> bool" where
  "spec_matches z s t =
     (case spec_parse s of None \<Rightarrow> False | Some e \<Rightarrow> expr_matches e (LocalTime z t))"

definition minute_aligned :: "int \<Rightarrow> instant \<Rightarrow> bool" where
  "minute_aligned z t = (LocalTime z t mod msPerMinute = 0)"

text \<open>
  \<open>nextOccurrence(expression, after)\<close> is \<open>r\<close>: the earliest minute-aligned instant
  strictly after \<open>after\<close> that satisfies \<open>matches\<close>.
\<close>

definition spec_nextOccurrence :: "int \<Rightarrow> string \<Rightarrow> instant \<Rightarrow> instant \<Rightarrow> bool" where
  "spec_nextOccurrence z s after r =
     (after < r \<and> minute_aligned z r \<and> spec_matches z s r \<and>
      (\<forall>u. after < u \<and> u < r \<and> minute_aligned z u \<longrightarrow> \<not> spec_matches z s u))"

section \<open>Example deployments and inputs\<close>

text \<open>
  Concrete inputs for the closed theorems below. The hosts run in UTC; their validator
  is the specification's \<open>validate\<close>, which agrees with \<open>node-cron\<close> on the plain
  expressions used. \<open>utc_env\<close> has the factory of \<open>job-factory.ts\<close>, \<open>strict_env\<close> the
  factory of the unnamed file.
\<close>

definition utc_env :: env where
  "utc_env = \<lparr>tza = 0, cron_validate = (\<lambda>s. Some (spec_validate s)), factory = createJob\<rparr>"

definition strict_env :: env where
  "strict_env = \<lparr>tza = 0, cron_validate = (\<lambda>s. Some (spec_validate s)),
     factory = createJob_part_005\<rparr>"

text \<open>The job of the end-to-end test, the job of the README, a paused job.\<close>

definition test_job :: job where
  "test_job = \<lparr>job_id = 1, name = ''Execution Test Job'', description = None,
     schedule = ''* * * * *'', isActive = True, lastRun = None, nextRun = None,
     createdAt = 0, updatedAt = 0\<rparr>"

definition daily_job :: job where
  "daily_job = \<lparr>job_id = 2, name = ''Daily Email Notification'',
     description = Some ''Send daily newsletter to users'',
     schedule = ''0 9 * * *'', isActive = True, lastRun = Some 32400000,
     nextRun = Some 118800000, createdAt = 0, updatedAt = 32402000\<rparr>"

definition paused_job :: job where
  "paused_job = \<lparr>job_id = 3, name = ''Paused Email Job'', description = None,
     schedule = ''* * * * *'', isActive = False, lastRun = None, nextRun = None,
     createdAt = 0, updatedAt = 0\<rparr>"

section \<open>Auxiliary notions for the statements\<close>

text \<open>The job a log line is about.\<close>

primrec entry_id :: "log_entry \<Rightarrow> int" where
  "entry_id (RunningJob n i) = i"
| "entry_id (JobCompleted i t) = i"
| "entry_id (ErrorExecuting i e) = i"

text \<open>
  \<open>untouched ids tbl tbl'\<close>: the two tables have the same rows at the same positions,
  except for the content of rows whose id is in \<open>ids\<close>.
\<close>

definition untouched :: "int set \<Rightarrow> job list \<Rightarrow> job list \<Rightarrow> bool" where
  "untouched ids tbl tbl' =
     (length tbl' = length tbl \<and>
      (\<forall>k < length tbl. job_id (tbl' ! k) = job_id (tbl ! k) \<and>
          (job_id (tbl ! k) \<notin> ids \<longrightarrow> tbl' ! k = tbl ! k)))"

text \<open>No executor that the factory of the deployment returns stays pending.\<close>

definition settles :: "env \<Rightarrow> bool" where
  "settles E = (\<forall>n ex i t. factory E n = Inr ex \<longrightarrow> ex i n t \<noteq> Pending)"

section \<open>Properties of the next-run computation\<close>

lemma setDate_next_eq: "setDate_next z t = t + msPerDay"
proof -
  have "(t + z) div msPerDay * msPerDay + (t + z) mod msPerDay = t + z"
    by simp
  then show ?thesis
    unfolding setDate_next_def UTC_def MakeDate_def Day_def TimeWithinDay_def LocalTime_def
    by (simp add: algebra_simps)
qed

lemma setHours_eq:
  "setHours z t h 0 0 0 = t - (t + z) mod msPerDay + h * msPerHour"
proof -
  have "(t + z) div msPerDay * msPerDay = (t + z) - (t + z) mod msPerDay"
    by (simp add: algebra_simps minus_mod_eq_mult_div [symmetric])
  then show ?thesis
    unfolding setHours_def UTC_def MakeDate_def Day_def MakeTime_def LocalTime_def
    by simp
qed

lemma getHours_eq: "getHours z t = ((t + z) mod msPerDay) div msPerHour"
proof -
  define x where "x = t + z"
  have "x mod (3600000 * 24) = 3600000 * (x div 3600000 mod 24) + x mod 3600000"
    by (rule zmod_zmult2_eq) simp
  then have "x mod 86400000 div 3600000 = x div 3600000 mod 24"
    by simp
  then show ?thesis
    unfolding getHours_def HourFromTime_def LocalTime_def x_def
    by (simp add: msPerDay_def msPerHour_def)
qed

lemma next9AM_after:
  assumes "getHours z now < 9"
  shows "now < setHours z now 9 0 0 0"
proof -
  have "(now + z) mod msPerDay div msPerHour < 9"
    using assms by (simp add: getHours_eq)
  then have "(now + z) mod msPerDay < 9 * msPerHour"
    by (simp add: msPerHour_def div_less_iff_less_mult)
  then show ?thesis
    by (simp add: setHours_eq)
qed

lemma midnight_after: "now < setHours z (setDate_next z now) 0 0 0 0"
proof -
  have "(now + z) mod msPerDay < msPerDay"
    by (simp add: msPerDay_def)
  moreover have "(now + msPerDay + z) mod msPerDay = (now + z) mod msPerDay"
    by (simp add: add.commute add.left_commute)
  ultimately show ?thesis
    by (simp add: setHours_eq setDate_next_eq)
qed

lemma calculateNextRun_after: "now < calculateNextRun z e now"
proof -
  have "now < setDate_next z (setHours z now 9 0 0 0)"
    using next9AM_after [of z now] midnight_after [of now z]
    by (simp add: setDate_next_eq setHours_eq msPerDay_def msPerHour_def)
  then show ?thesis
    using next9AM_after [of z now] midnight_after [of now z]
    by (auto simp: calculateNextRun_def msPerHour_def Let_def not_le)
qed

text \<open>
  C10. For every schedule string and every current instant the next-run computation
  returns a timestamp (it has no failing branch and signals nothing), the timestamp is
  strictly greater than the current instant, and an expression outside the four
  recognised patterns receives the current instant plus one hour.
\<close>

theorem calculateNextRun_total_future:
  "now < calculateNextRun z e now \<and>
   (e \<notin> {''* * * * *'', ''0 * * * *'', ''0 0 * * *'', ''0 9 * * *''}
      \<longrightarrow> calculateNextRun z e now = now + msPerHour)"
  using calculateNextRun_after [of now z e]
  by (auto simp: calculateNextRun_def msPerHour_def)

theorem calculateNextRun_total_future_witness:
  "(0::int) < calculateNextRun 0 ''*/5 * * * *'' 0 \<and>
   ''*/5 * * * *'' \<notin> {''* * * * *'', ''0 * * * *'', ''0 0 * * *'', ''0 9 * * *''} \<and>
   calculateNextRun 0 ''*/5 * * * *'' 0 = 0 + msPerHour"
  using calculateNextRun_total_future [of 0 0 "''*/5 * * * *''"] by simp

text \<open>
  C7. For the expression \<open>0 9 * * *\<close>: at 08:00 local time of any day the computed next
  occurrence is 09:00 of the same day, and at 10:00 it is 09:00 of the next day.
\<close>

theorem calculateNextRun_9am:
  "calculateNextRun z ''0 9 * * *'' (UTC z (MakeDate d (MakeTime 8 0 0 0)))
     = UTC z (MakeDate d (MakeTime 9 0 0 0)) \<and>
   calculateNextRun z ''0 9 * * *'' (UTC z (MakeDate d (MakeTime 10 0 0 0)))
     = UTC z (MakeDate (d + 1) (MakeTime 9 0 0 0))"
  by (simp add: calculateNextRun_def getHours_eq setHours_eq setDate_next_eq
      UTC_def MakeDate_def MakeTime_def msPerDay_def msPerHour_def msPerMinute_def)

section \<open>The next-run computation against the specification's evaluator\<close>

lemma matches_every_minute: "spec_matches z ''* * * * *'' u"
  by (simp add: spec_matches_def spec_parse_def parse_field_def expr_matches_def day_matches_def)

lemma earliest_congruent:
  fixes x u r P :: int
  assumes "x < u" and "u < r" and "r - x \<le> P"
  shows "u mod P \<noteq> r mod P"
proof
  assume "u mod P = r mod P"
  then have "P dvd r - u"
    by (metis mod_eq_dvd_iff)
  moreover have "0 < r - u" and "r - u < P"
    using assms by auto
  ultimately show False
    using zdvd_not_zless by blast
qed

lemma matches_hourly:
  "spec_matches z ''0 * * * *'' u = (MinFromTime (LocalTime z u) = 0)"
  by (simp add: spec_matches_def spec_parse_def parse_field_def parse_literal_def digit_of_def
      expr_matches_def day_matches_def)

lemma matches_midnight:
  "spec_matches z ''0 0 * * *'' u =
     (MinFromTime (LocalTime z u) = 0 \<and> HourFromTime (LocalTime z u) = 0)"
  by (simp add: spec_matches_def spec_parse_def parse_field_def parse_literal_def digit_of_def
      expr_matches_def day_matches_def)

lemma matches_9am:
  "spec_matches z ''0 9 * * *'' u =
     (MinFromTime (LocalTime z u) = 0 \<and> HourFromTime (LocalTime z u) = 9)"
  by (simp add: spec_matches_def spec_parse_def parse_field_def parse_literal_def digit_of_def
      expr_matches_def day_matches_def)

lemma hour_decomp:
  "x mod msPerHour = msPerMinute * MinFromTime x + x mod msPerMinute"
proof -
  have "x mod (60000 * 60) = 60000 * (x div 60000 mod 60) + x mod 60000"
    by (rule zmod_zmult2_eq) simp
  then show ?thesis
    by (simp add: msPerHour_def msPerMinute_def MinFromTime_def)
qed

lemma day_decomp:
  "x mod msPerDay = msPerHour * HourFromTime x + x mod msPerHour"
proof -
  have "x mod (3600000 * 24) = 3600000 * (x div 3600000 mod 24) + x mod 3600000"
    by (rule zmod_zmult2_eq) simp
  then show ?thesis
    by (simp add: msPerHour_def msPerDay_def HourFromTime_def)
qed

lemma MinFromTime_range: "0 \<le> MinFromTime x \<and> MinFromTime x < 60"
  by (simp add: MinFromTime_def)

lemma HourFromTime_range: "0 \<le> HourFromTime x \<and> HourFromTime x < 24"
  by (simp add: HourFromTime_def)

lemma on_the_hour_iff:
  "(x mod msPerMinute = 0 \<and> MinFromTime x = 0) = (x mod msPerHour = 0)"
proof -
  define s where "s = x mod msPerMinute"
  define m where "m = MinFromTime x"
  have "0 \<le> s" "s < 60000" "0 \<le> m"
    by (simp_all add: s_def m_def msPerMinute_def MinFromTime_def)
  moreover have "x mod msPerHour = 60000 * m + s"
    using hour_decomp [of x] by (simp add: s_def m_def msPerMinute_def)
  ultimately show ?thesis
    unfolding s_def [symmetric] m_def [symmetric] by auto
qed

lemma time_of_day_iff:
  assumes "0 \<le> h" and "h < 24"
  shows "(x mod msPerMinute = 0 \<and> MinFromTime x = 0 \<and> HourFromTime x = h)
       = (x mod msPerDay = h * msPerHour)"
proof -
  define r where "r = x mod msPerHour"
  define k where "k = HourFromTime x"
  have "0 \<le> r" "r < 3600000"
    by (simp_all add: r_def msPerHour_def)
  moreover have "x mod msPerDay = 3600000 * k + r"
    using day_decomp [of x] by (simp add: r_def k_def msPerHour_def)
  ultimately have "(r = 0 \<and> k = h) = (x mod msPerDay = h * msPerHour)"
    by (cases "k < h"; cases "k = h") (auto simp: msPerHour_def)
  then show ?thesis
    using on_the_hour_iff [of x] by (auto simp: r_def k_def)
qed


lemma nextOccurrence_by_period:
  assumes char: "\<And>u. (minute_aligned z u \<and> spec_matches z s u) = (LocalTime z u mod P = c)"
    and "T < r" and "r - T \<le> P" and "LocalTime z r mod P = c"
  shows "spec_nextOccurrence z s T r"
proof -
  have "minute_aligned z r \<and> spec_matches z s r"
    using char [of r] assms(4) by simp
  moreover have "\<not> spec_matches z s u" if "T < u" "u < r" "minute_aligned z u" for u
  proof
    assume "spec_matches z s u"
    with that(3) have "LocalTime z u mod P = LocalTime z r mod P"
      using char [of u] assms(4) by simp
    moreover have "LocalTime z u mod P \<noteq> LocalTime z r mod P"
      using earliest_congruent [of "LocalTime z T" "LocalTime z u" "LocalTime z r" P]
        that(1,2) assms(3)
      by (simp add: LocalTime_def)
    ultimately show False by simp
  qed
  ultimately show ?thesis
    using assms(2) by (auto simp: spec_nextOccurrence_def)
qed

lemma mod_shift: "((a::int) + (b + P)) mod P = (a + b) mod P"
  by (metis add.assoc mod_add_self2)

lemma mod_shift': "((a::int) + P + b) mod P = (a + b) mod P"
  by (metis add.assoc add.commute mod_add_self2)

lemma nine_hours_iff: "(9 \<le> (m::int) div 3600000) = (9 * 3600000 \<le> m)"
proof -
  define q where "q = m div 3600000"
  define r where "r = m mod 3600000"
  have "m = 3600000 * q + r" "0 \<le> r" "r < 3600000"
    by (simp_all add: q_def r_def)
  then show ?thesis
    unfolding q_def [symmetric] by auto
qed

lemma next_every_minute:
  "spec_nextOccurrence z ''* * * * *'' T (calculateNextRun z ''* * * * *'' T) = minute_aligned z T"
proof
  assume "spec_nextOccurrence z ''* * * * *'' T (calculateNextRun z ''* * * * *'' T)"
  then have "minute_aligned z (T + 60000)"
    by (simp add: spec_nextOccurrence_def calculateNextRun_def)
  then show "minute_aligned z T"
    using mod_shift' [of T 60000 z]
    by (simp add: minute_aligned_def LocalTime_def msPerMinute_def)
next
  assume a: "minute_aligned z T"
  have "spec_nextOccurrence z ''* * * * *'' T (T + 60000)"
  proof (rule nextOccurrence_by_period [where P = msPerMinute and c = 0])
    show "(minute_aligned z u \<and> spec_matches z ''* * * * *'' u) = (LocalTime z u mod msPerMinute = 0)" for u
      by (simp add: matches_every_minute minute_aligned_def)
    show "T < T + 60000" by simp
    show "T + 60000 - T \<le> msPerMinute" by (simp add: msPerMinute_def)
    show "LocalTime z (T + 60000) mod msPerMinute = 0"
      using a mod_shift' [of T 60000 z]
      by (simp add: minute_aligned_def LocalTime_def msPerMinute_def)
  qed
  then show "spec_nextOccurrence z ''* * * * *'' T (calculateNextRun z ''* * * * *'' T)"
    by (simp add: calculateNextRun_def)
qed

lemma next_hourly:
  "spec_nextOccurrence z ''0 * * * *'' T (calculateNextRun z ''0 * * * *'' T)
     = (LocalTime z T mod msPerHour = 0)"
proof -
  have char: "(minute_aligned z u \<and> spec_matches z ''0 * * * *'' u) = (LocalTime z u mod msPerHour = 0)" for u
    using on_the_hour_iff [of "LocalTime z u"] by (simp add: matches_hourly minute_aligned_def)
  have shift: "LocalTime z (T + 3600000) mod msPerHour = LocalTime z T mod msPerHour"
    using mod_shift' [of T 3600000 z] by (simp add: LocalTime_def msPerHour_def)
  show ?thesis
  proof
    assume "spec_nextOccurrence z ''0 * * * *'' T (calculateNextRun z ''0 * * * *'' T)"
    then have "minute_aligned z (T + 3600000) \<and> spec_matches z ''0 * * * *'' (T + 3600000)"
      by (simp add: spec_nextOccurrence_def calculateNextRun_def)
    then show "LocalTime z T mod msPerHour = 0"
      using char [of "T + 3600000"] shift by simp
  next
    assume a: "LocalTime z T mod msPerHour = 0"
    have "spec_nextOccurrence z ''0 * * * *'' T (T + 3600000)"
    proof (rule nextOccurrence_by_period [where P = msPerHour and c = 0])
      show "(minute_aligned z u \<and> spec_matches z ''0 * * * *'' u) = (LocalTime z u mod msPerHour = 0)" for u
        by (rule char)
      show "T < T + 3600000" by simp
      show "T + 3600000 - T \<le> msPerHour" by (simp add: msPerHour_def)
      show "LocalTime z (T + 3600000) mod msPerHour = 0"
        using a shift by simp
    qed
    then show "spec_nextOccurrence z ''0 * * * *'' T (calculateNextRun z ''0 * * * *'' T)"
      by (simp add: calculateNextRun_def)
  qed
qed

lemma next_midnight:
  "spec_nextOccurrence z ''0 0 * * *'' T (calculateNextRun z ''0 0 * * *'' T)"
proof -
  define r where "r = calculateNextRun z ''0 0 * * *'' T"
  have r: "r = T + msPerDay - (T + z) mod msPerDay"
    using mod_shift' [of T msPerDay z]
    by (simp add: r_def calculateNextRun_def setHours_eq setDate_next_eq)
  have "spec_nextOccurrence z ''0 0 * * *'' T r"
  proof (rule nextOccurrence_by_period [where P = msPerDay and c = 0])
    show "(minute_aligned z u \<and> spec_matches z ''0 0 * * *'' u) = (LocalTime z u mod msPerDay = 0)" for u
      using time_of_day_iff [of 0 "LocalTime z u"] by (simp add: matches_midnight minute_aligned_def)
    have "(T + z) mod msPerDay < msPerDay" "0 \<le> (T + z) mod msPerDay"
      by (simp_all add: msPerDay_def)
    then show "T < r" "r - T \<le> msPerDay"
      by (simp_all add: r)
    have "LocalTime z r = msPerDay + ((T + z) - (T + z) mod msPerDay)"
      by (simp add: r LocalTime_def)
    also have "\<dots> mod msPerDay = 0"
      by (simp add: minus_mod_eq_mult_div)
    finally show "LocalTime z r mod msPerDay = 0" .
  qed
  then show ?thesis by (simp add: r_def)
qed

lemma next_9am:
  "spec_nextOccurrence z ''0 9 * * *'' T (calculateNextRun z ''0 9 * * *'' T)"
proof -
  define r where "r = calculateNextRun z ''0 9 * * *'' T"
  define m where "m = (T + z) mod msPerDay"
  have m: "0 \<le> m" "m < msPerDay"
    by (simp_all add: m_def msPerDay_def)
  have hours: "(9 \<le> getHours z T) = (9 * msPerHour \<le> m)"
    using nine_hours_iff [of m] by (simp add: getHours_eq m_def msPerHour_def)
  have r: "r = T - m + 9 * msPerHour + (if 9 * msPerHour \<le> m then msPerDay else 0)"
    using hours by (simp add: r_def calculateNextRun_def setHours_eq setDate_next_eq m_def)
  have "spec_nextOccurrence z ''0 9 * * *'' T r"
  proof (rule nextOccurrence_by_period [where P = msPerDay and c = "9 * msPerHour"])
    show "(minute_aligned z u \<and> spec_matches z ''0 9 * * *'' u) = (LocalTime z u mod msPerDay = 9 * msPerHour)" for u
      using time_of_day_iff [of 9 "LocalTime z u"] by (simp add: matches_9am minute_aligned_def)
    show "T < r" "r - T \<le> msPerDay"
      using m by (auto simp: r msPerHour_def msPerDay_def)
    have "LocalTime z r =
        ((T + z) - (T + z) mod msPerDay) + 9 * msPerHour + (if 9 * msPerHour \<le> m then msPerDay else 0)"
      by (simp add: r LocalTime_def m_def)
    also have "\<dots> mod msPerDay = (9 * msPerHour) mod msPerDay"
      by (simp add: minus_mod_eq_mult_div add.assoc)
    also have "\<dots> = 9 * msPerHour"
      by (simp add: msPerHour_def msPerDay_def)
    finally show "LocalTime z r mod msPerDay = 9 * msPerHour" .
  qed
  then show ?thesis by (simp add: r_def)
qed

text \<open>
  C2, as the code has it. For every expression the computed instant is strictly after
  \<open>T\<close>. For \<open>0 0 * * *\<close> and \<open>0 9 * * *\<close> it is the specification's next occurrence
  (minute-aligned, matching, with no minute-aligned match strictly between), for every
  \<open>T\<close>. For \<open>* * * * *\<close> it is the next occurrence exactly when \<open>T\<close> is minute-aligned,
  and for \<open>0 * * * *\<close> exactly when \<open>T\<close> is on the hour.
\<close>

theorem calculateNextRun_vs_nextOccurrence:
  "T < calculateNextRun z e T \<and>
   spec_nextOccurrence z ''0 0 * * *'' T (calculateNextRun z ''0 0 * * *'' T) \<and>
   spec_nextOccurrence z ''0 9 * * *'' T (calculateNextRun z ''0 9 * * *'' T) \<and>
   spec_nextOccurrence z ''* * * * *'' T (calculateNextRun z ''* * * * *'' T)
     = minute_aligned z T \<and>
   spec_nextOccurrence z ''0 * * * *'' T (calculateNextRun z ''0 * * * *'' T)
     = (LocalTime z T mod msPerHour = 0)"
  using calculateNextRun_after [of T z e] next_midnight [of z T] next_9am [of z T]
    next_every_minute [of z T] next_hourly [of z T]
  by simp

theorem calculateNextRun_vs_nextOccurrence_witness:
  "(0::int) < calculateNextRun 0 ''30 * * * *'' 0 \<and>
   spec_nextOccurrence 0 ''0 0 * * *'' 0 86400000 \<and>
   spec_nextOccurrence 0 ''0 9 * * *'' 0 32400000 \<and>
   minute_aligned 0 0 \<and>
   spec_nextOccurrence 0 ''* * * * *'' 0 60000 \<and>
   LocalTime 0 0 mod msPerHour = 0 \<and>
   spec_nextOccurrence 0 ''0 * * * *'' 0 3600000"
  using calculateNextRun_vs_nextOccurrence [of 0 0 "''30 * * * *''"]
  by (simp add: calculateNextRun_def setHours_eq setDate_next_eq getHours_eq
      minute_aligned_def LocalTime_def msPerDay_def msPerHour_def msPerMinute_def)

text \<open>
  C2 as stated fails. At 00:10:30 the expression \<open>* * * * *\<close> gets 00:11:30, although
  the minute-aligned instant 00:11:00 lies strictly between and matches. The valid
  expression \<open>30 * * * *\<close> gets 01:00 at 00:00, which does not match, although 00:30
  does.
\<close>

theorem nextOccurrence_counterexample:
  "spec_validate ''* * * * *'' \<and>
   calculateNextRun 0 ''* * * * *'' 630000 = 690000 \<and>
   (630000::int) < 660000 \<and> (660000::int) < 690000 \<and>
   minute_aligned 0 660000 \<and> spec_matches 0 ''* * * * *'' 660000 \<and>
   \<not> spec_nextOccurrence 0 ''* * * * *'' 630000 (calculateNextRun 0 ''* * * * *'' 630000) \<and>
   spec_validate ''30 * * * *'' \<and>
   calculateNextRun 0 ''30 * * * *'' 0 = 3600000 \<and>
   \<not> spec_matches 0 ''30 * * * *'' 3600000 \<and>
   spec_matches 0 ''30 * * * *'' 1800000"
proof -
  have "\<not> minute_aligned 0 630000"
    by (simp add: minute_aligned_def LocalTime_def msPerMinute_def)
  then have "\<not> spec_nextOccurrence 0 ''* * * * *'' 630000 (calculateNextRun 0 ''* * * * *'' 630000)"
    using next_every_minute [of 0 630000] by simp
  moreover have "spec_validate ''* * * * *'' \<and> spec_validate ''30 * * * *''"
    by (simp add: spec_validate_def spec_parse_def parse_field_def parse_literal_def digit_of_def)
  moreover have "\<not> spec_matches 0 ''30 * * * *'' 3600000 \<and> spec_matches 0 ''30 * * * *'' 1800000"
    by (simp add: spec_matches_def spec_parse_def parse_field_def parse_literal_def digit_of_def
        expr_matches_def day_matches_def MinFromTime_def LocalTime_def msPerMinute_def)
  ultimately show ?thesis
    by (simp add: calculateNextRun_def matches_every_minute minute_aligned_def LocalTime_def
        msPerMinute_def)
qed

section \<open>The due-job selector\<close>

lemma shouldRunBasedOnCron_iff:
  "shouldRunBasedOnCron lr now s = (60000 \<le> now - lr)"
proof -
  have "(real_of_int (now - lr) / 1000 / 60 \<ge> 1) = (real_of_int (now - lr) \<ge> real_of_int 60000)"
    by (simp add: field_simps)
  also have "\<dots> = (60000 \<le> now - lr)"
    by (simp only: of_int_le_iff)
  finally show ?thesis
    by (simp add: shouldRunBasedOnCron_def)
qed

lemma shouldJobRun_first_run: "lastRun j = None \<Longrightarrow> shouldJobRun v j now"
  by (simp add: shouldJobRun_def)

lemma shouldJobRun_mono:
  assumes "shouldJobRun v j now" and "now \<le> now'"
  shows "shouldJobRun v j now'"
  using assms
  by (auto simp: shouldJobRun_def shouldRunBasedOnCron_iff split: option.splits bool.splits if_splits)

text \<open>
  C9. An active job whose \<open>lastRun\<close> is absent is due, whatever its \<open>nextRun\<close> and
  schedule are: the selector returns true, the tick's query fetches the job, and the
  loop dispatches it.
\<close>

theorem first_run_is_due:
  assumes "isActive j" and "lastRun j = None"
  shows "shouldJobRun v j now \<and>
         (j \<in> set tbl \<longrightarrow> j \<in> set (findMany_active tbl)) \<and>
         run_jobs E now (j # rest) w =
           (case executeJob E (job_id j) (name j) (schedule j)
                   (w\<lparr>logs := logs w @ [RunningJob (name j) (job_id j)]\<rparr>) of
              None \<Rightarrow> None
            | Some w' \<Rightarrow> run_jobs E now rest w')"
  using assms by (simp add: shouldJobRun_first_run findMany_active_def)

theorem first_run_is_due_witness:
  "isActive test_job \<and> lastRun test_job = None \<and>
   shouldJobRun (cron_validate utc_env) test_job 600000 \<and>
   test_job \<in> set (findMany_active [paused_job, test_job]) \<and>
   run_jobs utc_env 600000 [test_job] \<lparr>jobs = [paused_job, test_job], clock = 600000, logs = []\<rparr> =
     Some \<lparr>jobs = [paused_job,
                   test_job\<lparr>lastRun := Some 600000, nextRun := Some 662000, updatedAt := 602000\<rparr>],
           clock = 602000,
           logs = [RunningJob ''Execution Test Job'' 1, JobCompleted 1 662000]\<rparr>"
  using first_run_is_due [of test_job "cron_validate utc_env" 600000 "[paused_job, test_job]"
      utc_env "[]" "\<lparr>jobs = [paused_job, test_job], clock = 600000, logs = []\<rparr>"]
  by (simp add: test_job_def paused_job_def utc_env_def executeJob_def createJob_def EmailJob_def
      calculateNextRun_def job_update_def apply_data_def no_data_def Let_def)

text \<open>
  What the fallback of the selector computes. Its comments announce a check based on
  the schedule, and \<open>shouldRunBasedOnCron\<close> takes the expression, but the expression
  plays no part beyond being accepted by the validator: the one-minute test, which its
  own comment calls a stand-in, decides.
\<close>

lemma shouldJobRun_fallback:
  assumes "lastRun j = Some lr"
    and "\<not> (\<exists>nr. nextRun j = Some nr \<and> now \<ge> nr)"
  shows "shouldJobRun v j now = (v (schedule j) = Some True \<and> now - lr \<ge> msPerMinute)"
  using assms
  by (auto simp: shouldJobRun_def shouldRunBasedOnCron_iff msPerMinute_def
           split: option.splits bool.splits)

lemma shouldJobRun_due_after_one_minute:
  assumes "lastRun j = Some lr" and "v (schedule j) = Some True"
    and "lr + msPerMinute \<le> now"
  shows "shouldJobRun v j now"
  using assms
  by (auto simp: shouldJobRun_def shouldRunBasedOnCron_iff msPerMinute_def
           split: option.splits)

text \<open>
  C3. For an active job whose \<open>lastRun\<close> is present and whose \<open>nextRun\<close> is not yet
  reached, the selector is to decide not due. The code does not: the daily job ran at
  09:00, its \<open>nextRun\<close> is 09:00 of the next day and its expression \<open>0 9 * * *\<close> does
  not match 09:02, yet at 09:02 \<open>shouldJobRun\<close> returns true.
\<close>

theorem shouldJobRun_daily_job_0902:
  "isActive daily_job \<and> lastRun daily_job = Some 32400000 \<and>
   nextRun daily_job = Some 118800000 \<and> \<not> (32520000::int) \<ge> 118800000 \<and>
   cron_validate utc_env (schedule daily_job) = Some True \<and>
   \<not> spec_matches 0 (schedule daily_job) 32520000 \<and>
   shouldJobRun (cron_validate utc_env) daily_job 32520000"
proof -
  have "\<not> spec_matches 0 ''0 9 * * *'' 32520000"
    by (simp add: spec_matches_def spec_parse_def parse_field_def parse_literal_def
        digit_of_def expr_matches_def MinFromTime_def LocalTime_def msPerMinute_def)
  moreover have "spec_validate ''0 9 * * *''"
    by (simp add: spec_validate_def spec_parse_def parse_field_def parse_literal_def
        digit_of_def)
  ultimately show ?thesis
    by (simp add: daily_job_def utc_env_def shouldJobRun_def shouldRunBasedOnCron_def)
qed

section \<open>Dispatch and write-back\<close>

lemma job_update_Inr:
  "i \<in> job_id ` set tbl \<Longrightarrow>
   job_update tbl i d t = Inr (map (\<lambda>j. if job_id j = i then apply_data d t j else j) tbl)"
  by (simp add: job_update_def)

lemma apply_run_data:
  "apply_data (no_data\<lparr>d_lastRun := Some (Some a), d_nextRun := Some (Some b)\<rparr>) t j
     = j\<lparr>lastRun := Some a, nextRun := Some b, updatedAt := t\<rparr>"
  by (simp add: apply_data_def no_data_def)

lemma executeJob_resolved:
  assumes "factory E n = Inr ex" and "ex i n (clock w) = Resolved ms"
    and "i \<in> job_id ` set (jobs w)"
  shows "executeJob E i n s w =
     Some (w\<lparr>jobs := map (\<lambda>j. if job_id j = i
                then j\<lparr>lastRun := Some (clock w),
                       nextRun := Some (calculateNextRun (tza E) s (clock w + int ms)),
                       updatedAt := clock w + int ms\<rparr>
                else j) (jobs w),
            clock := clock w + int ms,
            logs := logs w @ [JobCompleted i (calculateNextRun (tza E) s (clock w + int ms))]\<rparr>)"
  using assms by (simp add: executeJob_def job_update_Inr apply_run_data Let_def)

lemma executeJob_raised:
  assumes "factory E n = Inl err \<or>
           (\<exists>ex ms. factory E n = Inr ex \<and> ex i n (clock w) = Rejected ms)"
  shows "\<exists>w'. executeJob E i n s w = Some w' \<and> jobs w' = jobs w"
  using assms by (auto simp: executeJob_def)


lemma untouched_refl: "untouched ids tbl tbl"
  by (simp add: untouched_def)

lemma untouched_trans:
  "untouched A t1 t2 \<Longrightarrow> untouched B t2 t3 \<Longrightarrow> untouched (A \<union> B) t1 t3"
  by (auto simp: untouched_def)

lemma untouched_mono: "untouched A t1 t2 \<Longrightarrow> A \<subseteq> B \<Longrightarrow> untouched B t1 t2"
  by (auto simp: untouched_def)

lemma executeJob_keeps:
  assumes "executeJob E i n s w = Some w'"
  shows "map (\<lambda>j. (job_id j, name j, description j, schedule j, isActive j, createdAt j)) (jobs w')
       = map (\<lambda>j. (job_id j, name j, description j, schedule j, isActive j, createdAt j)) (jobs w)"
  using assms
  by (auto simp: executeJob_def job_update_def apply_run_data Let_def
           split: sum.splits run.splits if_splits)

lemma executeJob_untouched:
  assumes "executeJob E i n s w = Some w'"
  shows "untouched {i} (jobs w) (jobs w')"
  using assms
  by (auto simp: executeJob_def job_update_def apply_run_data Let_def untouched_def
           split: sum.splits run.splits if_splits)

lemma executeJob_logs:
  assumes "executeJob E i n s w = Some w'"
  shows "\<exists>e. logs w' = logs w @ [e] \<and> entry_id e = i"
  using assms
  by (auto simp: executeJob_def job_update_def apply_run_data Let_def
           split: sum.splits run.splits if_splits)

lemma run_jobs_inv:
  "run_jobs E now js w = Some w' \<Longrightarrow>
     untouched (job_id ` set js) (jobs w) (jobs w') \<and>
     (\<exists>tr. logs w' = logs w @ tr \<and> entry_id ` set tr \<subseteq> job_id ` set js)"
proof (induction js arbitrary: w)
  case Nil
  then show ?case by (simp add: untouched_refl)
next
  case (Cons j js)
  show ?case
  proof (cases "shouldJobRun (cron_validate E) j now")
    case False
    with Cons.prems have "run_jobs E now js w = Some w'" by simp
    from Cons.IH [OF this] show ?thesis
      by (auto intro: untouched_mono)
  next
    case True
    let ?w0 = "w\<lparr>logs := logs w @ [RunningJob (name j) (job_id j)]\<rparr>"
    from True Cons.prems obtain w1 where
      ex: "executeJob E (job_id j) (name j) (schedule j) ?w0 = Some w1"
      and rest: "run_jobs E now js w1 = Some w'"
      by (auto split: option.splits)
    from executeJob_untouched [OF ex] have u1: "untouched {job_id j} (jobs w) (jobs w1)"
      by simp
    from executeJob_logs [OF ex] obtain e where
      l1: "logs w1 = logs w @ [RunningJob (name j) (job_id j), e]" and e: "entry_id e = job_id j"
      by auto
    from Cons.IH [OF rest] obtain tr where
      u2: "untouched (job_id ` set js) (jobs w1) (jobs w')"
      and l2: "logs w' = logs w1 @ tr" and tr: "entry_id ` set tr \<subseteq> job_id ` set js"
      by auto
    have "untouched (job_id ` set (j # js)) (jobs w) (jobs w')"
      using untouched_trans [OF u1 u2] by simp
    moreover have "logs w' = logs w @ (RunningJob (name j) (job_id j) # e # tr)"
      using l1 l2 by simp
    moreover have "entry_id ` set (RunningJob (name j) (job_id j) # e # tr) \<subseteq> job_id ` set (j # js)"
      using e tr by auto
    ultimately show ?thesis by blast
  qed
qed

lemma inactive_id_not_fetched:
  assumes "distinct (map job_id tbl)" and "j \<in> set tbl" and "\<not> isActive j"
  shows "job_id j \<notin> job_id ` set (findMany_active tbl)"
proof
  assume "job_id j \<in> job_id ` set (findMany_active tbl)"
  then obtain j' where j': "j' \<in> set tbl" "isActive j'" "job_id j' = job_id j"
    by (auto simp: findMany_active_def)
  with assms(1,2) have "j' = j"
    by (meson distinct_map inj_onD)
  with j' assms(3) show False by simp
qed


lemma run_jobs_returns:
  assumes "settles E"
  shows "\<exists>w'. run_jobs E now js w = Some w'"
proof (induction js arbitrary: w)
  case Nil
  show ?case by simp
next
  case (Cons j js)
  let ?w0 = "w\<lparr>logs := logs w @ [RunningJob (name j) (job_id j)]\<rparr>"
  have "\<exists>w1. executeJob E (job_id j) (name j) (schedule j) ?w0 = Some w1"
    using assms
    by (auto simp: executeJob_def settles_def Let_def split: sum.splits run.splits)
  with Cons.IH show ?case
    by (auto split: option.splits)
qed

lemma checkAndRunJobs_returns:
  "settles E \<Longrightarrow> \<exists>w'. checkAndRunJobs E w = Some w'"
  by (simp add: checkAndRunJobs_def run_jobs_returns)

lemma settles_utc_env: "settles utc_env"
  by (simp add: settles_def utc_env_def createJob_def EmailJob_def)

lemma settles_strict_env: "settles strict_env"
  by (auto simp: settles_def strict_env_def createJob_part_005_def EmailJob_def split: if_splits)

lemma filter_job_update:
  "job_update tbl i d t = Inr tbl' \<Longrightarrow>
   filter (\<lambda>j. job_id j \<noteq> i) tbl' = filter (\<lambda>j. job_id j \<noteq> i) tbl"
proof -
  have "filter (\<lambda>j. job_id j \<noteq> i) (map (\<lambda>j. if job_id j = i then apply_data d t j else j) tbl)
      = filter (\<lambda>j. job_id j \<noteq> i) tbl"
    by (induction tbl) (auto simp: apply_data_def)
  then show "job_update tbl i d t = Inr tbl' \<Longrightarrow> ?thesis"
    by (auto simp: job_update_def split: if_splits)
qed

lemma executeJob_others:
  assumes "executeJob E i n s w = Some w'"
  shows "filter (\<lambda>j. job_id j \<noteq> i) (jobs w') = filter (\<lambda>j. job_id j \<noteq> i) (jobs w)"
  using assms
  by (auto simp: executeJob_def Let_def dest: filter_job_update
           split: sum.splits run.splits)

lemma executeJob_three_fields:
  assumes "executeJob E i n s w = Some w'"
  shows "list_all2 (\<lambda>a b. b = a\<lparr>lastRun := lastRun b, nextRun := nextRun b,
                                  updatedAt := updatedAt b\<rparr>) (jobs w) (jobs w')"
  using assms
  by (auto simp: executeJob_def job_update_def apply_run_data Let_def
        list_all2_map2 list_all2_same
      split: sum.splits run.splits if_splits)

text \<open>
  C5. In a table with unique ids, a job with \<open>isActive = false\<close> is not among the rows a
  tick fetches for the selector, no log line of the tick (dispatch, completion or error)
  is about it, and its row is in the table after the tick as it was, whatever its
  \<open>lastRun\<close> and \<open>nextRun\<close> are.
\<close>

theorem inactive_never_dispatched:
  assumes "checkAndRunJobs E w = Some w'"
    and "distinct (map job_id (jobs w))" and "j \<in> set (jobs w)" and "\<not> isActive j"
  shows "j \<notin> set (findMany_active (jobs w)) \<and> j \<in> set (jobs w') \<and>
         (\<exists>tr. logs w' = logs w @ tr \<and> job_id j \<notin> entry_id ` set tr)"
proof -
  from assms(1) have run: "run_jobs E (clock w) (findMany_active (jobs w)) w = Some w'"
    by (simp add: checkAndRunJobs_def)
  have nid: "job_id j \<notin> job_id ` set (findMany_active (jobs w))"
    using inactive_id_not_fetched [OF assms(2,3,4)] .
  from run_jobs_inv [OF run] obtain tr where
    u: "untouched (job_id ` set (findMany_active (jobs w))) (jobs w) (jobs w')"
    and l: "logs w' = logs w @ tr"
    and tr: "entry_id ` set tr \<subseteq> job_id ` set (findMany_active (jobs w))"
    by auto
  from assms(3) obtain k where k: "k < length (jobs w)" "jobs w ! k = j"
    by (auto simp: in_set_conv_nth)
  with u nid have "jobs w' ! k = j" "k < length (jobs w')"
    by (auto simp: untouched_def)
  then have "j \<in> set (jobs w')"
    by (auto simp: in_set_conv_nth)
  moreover have "j \<notin> set (findMany_active (jobs w))"
    using assms(4) by (simp add: findMany_active_def)
  moreover have "job_id j \<notin> entry_id ` set tr"
    using nid tr by auto
  ultimately show ?thesis using l by blast
qed

lemma tick_paused:
  "checkAndRunJobs utc_env \<lparr>jobs = [paused_job, test_job], clock = 600000, logs = []\<rparr> =
     Some \<lparr>jobs = [paused_job,
                   test_job\<lparr>lastRun := Some 600000, nextRun := Some 662000, updatedAt := 602000\<rparr>],
           clock = 602000,
           logs = [RunningJob ''Execution Test Job'' 1, JobCompleted 1 662000]\<rparr>"
  by (simp add: checkAndRunJobs_def findMany_active_def test_job_def paused_job_def utc_env_def
      shouldJobRun_def executeJob_def createJob_def EmailJob_def
      calculateNextRun_def job_update_def apply_data_def no_data_def Let_def)

theorem inactive_never_dispatched_witness:
  "checkAndRunJobs utc_env \<lparr>jobs = [paused_job, test_job], clock = 600000, logs = []\<rparr> =
     Some \<lparr>jobs = [paused_job,
                   test_job\<lparr>lastRun := Some 600000, nextRun := Some 662000, updatedAt := 602000\<rparr>],
           clock = 602000,
           logs = [RunningJob ''Execution Test Job'' 1, JobCompleted 1 662000]\<rparr> \<and>
   distinct (map job_id [paused_job, test_job]) \<and>
   paused_job \<in> set [paused_job, test_job] \<and> \<not> isActive paused_job \<and>
   lastRun paused_job = None \<and>
   paused_job \<notin> set (findMany_active [paused_job, test_job]) \<and>
   job_id paused_job \<notin> entry_id ` set [RunningJob ''Execution Test Job'' 1, JobCompleted 1 662000]"
  using inactive_never_dispatched [OF tick_paused, of paused_job]
  by (simp add: tick_paused) (simp add: test_job_def paused_job_def findMany_active_def)

text \<open>
  C8, as the code has it. Whatever \<open>executeJob\<close> does to the table, every row keeps its
  id, name, description, schedule, \<open>isActive\<close> and \<open>createdAt\<close>, and rows of other jobs
  are not touched. The payload of the write-back carries \<open>lastRun\<close> and \<open>nextRun\<close>
  only; the third column that changes is \<open>updatedAt\<close>, which the store stamps on every
  update. So each row after the call is the row before it with at most \<open>lastRun\<close>,
  \<open>nextRun\<close> and \<open>updatedAt\<close> replaced.
\<close>

theorem writeback_is_partial_update:
  assumes "executeJob E i n s w = Some w'"
  shows "map (\<lambda>j. (job_id j, name j, description j, schedule j, isActive j, createdAt j)) (jobs w')
       = map (\<lambda>j. (job_id j, name j, description j, schedule j, isActive j, createdAt j)) (jobs w) \<and>
         filter (\<lambda>j. job_id j \<noteq> i) (jobs w') = filter (\<lambda>j. job_id j \<noteq> i) (jobs w) \<and>
         list_all2 (\<lambda>a b. b = a\<lparr>lastRun := lastRun b, nextRun := nextRun b,
                                  updatedAt := updatedAt b\<rparr>) (jobs w) (jobs w')"
  using executeJob_keeps [OF assms] executeJob_others [OF assms] executeJob_three_fields [OF assms]
  by simp

lemma dispatch_test_job:
  "executeJob utc_env 1 ''Execution Test Job'' ''* * * * *''
       \<lparr>jobs = [paused_job, test_job], clock = 600000, logs = []\<rparr> =
     Some \<lparr>jobs = [paused_job,
                   test_job\<lparr>lastRun := Some 600000, nextRun := Some 662000, updatedAt := 602000\<rparr>],
           clock = 602000, logs = [JobCompleted 1 662000]\<rparr>"
  by (simp add: test_job_def paused_job_def utc_env_def
      executeJob_def createJob_def EmailJob_def
      calculateNextRun_def job_update_def apply_data_def no_data_def Let_def)

theorem writeback_is_partial_update_witness:
  "executeJob utc_env 1 ''Execution Test Job'' ''* * * * *''
       \<lparr>jobs = [paused_job, test_job], clock = 600000, logs = []\<rparr> =
     Some \<lparr>jobs = [paused_job,
                   test_job\<lparr>lastRun := Some 600000, nextRun := Some 662000, updatedAt := 602000\<rparr>],
           clock = 602000, logs = [JobCompleted 1 662000]\<rparr> \<and>
   map (\<lambda>j. (job_id j, name j, description j, schedule j, isActive j, createdAt j))
     [paused_job, test_job\<lparr>lastRun := Some 600000, nextRun := Some 662000, updatedAt := 602000\<rparr>]
   = map (\<lambda>j. (job_id j, name j, description j, schedule j, isActive j, createdAt j))
     [paused_job, test_job] \<and>
   filter (\<lambda>j. job_id j \<noteq> 1)
     [paused_job, test_job\<lparr>lastRun := Some 600000, nextRun := Some 662000, updatedAt := 602000\<rparr>]
   = [paused_job] \<and>
   list_all2 (\<lambda>a b. b = a\<lparr>lastRun := lastRun b, nextRun := nextRun b,
                            updatedAt := updatedAt b\<rparr>)
     [paused_job, test_job]
     [paused_job, test_job\<lparr>lastRun := Some 600000, nextRun := Some 662000, updatedAt := 602000\<rparr>]"
  using writeback_is_partial_update [OF dispatch_test_job]
  by (simp add: dispatch_test_job) (simp add: test_job_def paused_job_def)

text \<open>
  C8 as stated fails. The dispatch of the test job at 00:10:00 leaves its row with
  \<open>updatedAt\<close> changed from 0 to the instant of the write, 00:10:02: the row is not the
  old row with \<open>lastRun\<close> and \<open>nextRun\<close> alone replaced.
\<close>

theorem writeback_updatedAt_counterexample:
  "executeJob utc_env 1 ''Execution Test Job'' ''* * * * *''
       \<lparr>jobs = [test_job], clock = 600000, logs = []\<rparr> =
     Some \<lparr>jobs = [test_job\<lparr>lastRun := Some 600000, nextRun := Some 662000, updatedAt := 602000\<rparr>],
           clock = 602000, logs = [JobCompleted 1 662000]\<rparr> \<and>
   updatedAt test_job = 0 \<and>
   updatedAt (test_job\<lparr>lastRun := Some 600000, nextRun := Some 662000,
                         updatedAt := 602000\<rparr>) = 602000 \<and>
   test_job\<lparr>lastRun := Some 600000, nextRun := Some 662000, updatedAt := 602000\<rparr>
     \<noteq> test_job\<lparr>lastRun := Some 600000, nextRun := Some 662000\<rparr>"
  by (simp add: test_job_def utc_env_def executeJob_def createJob_def EmailJob_def
      calculateNextRun_def job_update_def apply_data_def no_data_def Let_def)

text \<open>
  C1, as the code has it. After a dispatch that succeeds (the factory returns an
  executor, its promise resolves after \<open>ms\<close> milliseconds, the row exists), the row's
  \<open>lastRun\<close> is the instant captured before the executor ran, and its \<open>nextRun\<close> is
  \<open>calculateNextRun\<close> of the schedule at the clock reading after the executor finished.
  For \<open>* * * * *\<close> that is the finishing instant plus one minute.
\<close>

theorem writeback_after_success:
  assumes "factory E n = Inr ex" and "ex i n (clock w) = Resolved ms"
    and "i \<in> job_id ` set (jobs w)"
  shows "executeJob E i n s w =
     Some (w\<lparr>jobs := map (\<lambda>j. if job_id j = i
                then j\<lparr>lastRun := Some (clock w),
                       nextRun := Some (calculateNextRun (tza E) s (clock w + int ms)),
                       updatedAt := clock w + int ms\<rparr>
                else j) (jobs w),
            clock := clock w + int ms,
            logs := logs w @ [JobCompleted i (calculateNextRun (tza E) s (clock w + int ms))]\<rparr>) \<and>
     calculateNextRun (tza E) ''* * * * *'' (clock w + int ms) = clock w + int ms + msPerMinute"
  using executeJob_resolved [OF assms] by (simp add: calculateNextRun_def msPerMinute_def)

theorem writeback_after_success_witness:
  "factory utc_env ''Execution Test Job'' = Inr EmailJob \<and>
   EmailJob 1 ''Execution Test Job'' 600000 = Resolved 2000 \<and>
   1 \<in> job_id ` set [test_job] \<and>
   executeJob utc_env 1 ''Execution Test Job'' ''* * * * *''
       \<lparr>jobs = [test_job], clock = 600000, logs = []\<rparr> =
     Some \<lparr>jobs = [test_job\<lparr>lastRun := Some 600000, nextRun := Some 662000, updatedAt := 602000\<rparr>],
           clock = 602000, logs = [JobCompleted 1 662000]\<rparr>"
  using writeback_after_success [of utc_env "''Execution Test Job''" EmailJob 1
      "\<lparr>jobs = [test_job], clock = 600000, logs = []\<rparr>" 2000 "''* * * * *''"]
  by (simp add: utc_env_def createJob_def EmailJob_def test_job_def calculateNextRun_def)

lemma spec_next_660000: "spec_nextOccurrence 0 ''* * * * *'' 600000 660000"
proof -
  have "\<not> (600000 < u \<and> u < 660000 \<and> u mod 60000 = 0)" for u :: int
    using earliest_congruent [of 600000 u 660000 60000] by auto
  then show ?thesis
    by (simp add: spec_nextOccurrence_def minute_aligned_def LocalTime_def msPerMinute_def
        matches_every_minute)
qed

text \<open>
  C1 as stated fails. The job of the end-to-end test is dispatched at 00:10:00; the
  email executor takes two seconds, and the stored \<open>nextRun\<close> is 00:11:02: neither the
  dispatch instant plus one minute nor the specification's next occurrence, 00:11:00.
\<close>

theorem writeback_nextRun_counterexample:
  "checkAndRunJobs utc_env \<lparr>jobs = [test_job], clock = 600000, logs = []\<rparr> =
     Some \<lparr>jobs = [test_job\<lparr>lastRun := Some 600000, nextRun := Some 662000, updatedAt := 602000\<rparr>],
           clock = 602000,
           logs = [RunningJob ''Execution Test Job'' 1, JobCompleted 1 662000]\<rparr> \<and>
   (662000::int) \<noteq> 600000 + msPerMinute \<and>
   spec_nextOccurrence 0 ''* * * * *'' 600000 660000 \<and>
   \<not> spec_nextOccurrence 0 ''* * * * *'' 600000 662000"
proof -
  have "\<not> spec_nextOccurrence 0 ''* * * * *'' 600000 662000"
    by (simp add: spec_nextOccurrence_def minute_aligned_def LocalTime_def msPerMinute_def)
  moreover have "checkAndRunJobs utc_env \<lparr>jobs = [test_job], clock = 600000, logs = []\<rparr> =
     Some \<lparr>jobs = [test_job\<lparr>lastRun := Some 600000, nextRun := Some 662000, updatedAt := 602000\<rparr>],
           clock = 602000,
           logs = [RunningJob ''Execution Test Job'' 1, JobCompleted 1 662000]\<rparr>"
    by (simp add: checkAndRunJobs_def findMany_active_def test_job_def utc_env_def
      shouldJobRun_def executeJob_def createJob_def EmailJob_def
      calculateNextRun_def job_update_def apply_data_def no_data_def Let_def)
  ultimately show ?thesis
    using spec_next_660000 by (simp add: msPerMinute_def)
qed

section \<open>The factory\<close>

lemma includesStr_sublist: "includesStr s p = sublist p s"
  by (induction s) (auto simp: sublist_Cons_right)

lemma toLowerCase_alphabet:
  "toLowerCase ''ABCDEFGHIJKLMNOPQRSTUVWXYZ'' = ''abcdefghijklmnopqrstuvwxyz'' \<and>
   toLowerCase ''abcdefghijklmnopqrstuvwxyz'' = ''abcdefghijklmnopqrstuvwxyz'' \<and>
   toLowerCase ''0123456789 @[`{*,-_/'' = ''0123456789 @[`{*,-_/''"
  by (simp add: toLowerCase_def)

text \<open>
  C6, as the code has it. The factory of \<open>job-factory.ts\<close> returns the email executor
  for every name and never raises. The factory of the unnamed file returns it exactly
  for the names whose lowercase form contains \<open>email\<close>, and raises the unknown-job error
  for every other name.
\<close>

theorem createJob_variants:
  "createJob n = Inr EmailJob \<and>
   createJob_part_005 n =
     (if includesStr (toLowerCase n) ''email'' then Inr EmailJob else Inl (UnknownJobName n))"
  by (simp add: createJob_def createJob_part_005_def)

text \<open>
  C6 as stated fails on the second factory: the lowercase form of \<open>Send Report\<close>
  contains \<open>send\<close>, and the factory raises.
\<close>

theorem createJob_send_counterexample:
  "includesStr (toLowerCase ''Send Report'') ''send'' \<and>
   createJob_part_005 ''Send Report'' = Inl (UnknownJobName ''Send Report'')"
  by (simp add: createJob_part_005_def toLowerCase_def)

section \<open>Failing dispatches\<close>

lemma repository_ticks_return:
  "(\<exists>w'. checkAndRunJobs utc_env w = Some w') \<and> (\<exists>w'. checkAndRunJobs strict_env w = Some w')"
  using checkAndRunJobs_returns [OF settles_utc_env] checkAndRunJobs_returns [OF settles_strict_env]
  by simp

text \<open>
  C4. A failing invocation reaches \<open>executeJob\<close> as an exception: the factory raises, or
  the executor's promise rejects (the service sets no timer of its own, so an invocation
  that runs out of time fails through the rejection of its promise). When the dispatch
  of a due job fails so, the table is left as it was, hence the job's \<open>lastRun\<close> and
  \<open>nextRun\<close>; the job is due at every later instant, so the next tick tries it again;
  the loop goes on with the remaining fetched jobs, and the tick returns whenever every
  executor of the deployment settles, as with both factories of the repository.
\<close>

theorem failed_dispatch_keeps_job_due:
  assumes due: "shouldJobRun (cron_validate E) j now"
    and fails: "factory E (name j) = Inl err \<or>
       (\<exists>ex ms. factory E (name j) = Inr ex \<and> ex (job_id j) (name j) (clock w) = Rejected ms)"
  shows "\<exists>w'. executeJob E (job_id j) (name j) (schedule j)
                 (w\<lparr>logs := logs w @ [RunningJob (name j) (job_id j)]\<rparr>) = Some w' \<and>
              jobs w' = jobs w \<and>
              run_jobs E now (j # rest) w = run_jobs E now rest w' \<and>
              (settles E \<longrightarrow> run_jobs E now (j # rest) w \<noteq> None) \<and>
              (\<forall>now' \<ge> now. shouldJobRun (cron_validate E) j now')"
proof -
  let ?w0 = "w\<lparr>logs := logs w @ [RunningJob (name j) (job_id j)]\<rparr>"
  from fails have "factory E (name j) = Inl err \<or>
       (\<exists>ex ms. factory E (name j) = Inr ex \<and> ex (job_id j) (name j) (clock ?w0) = Rejected ms)"
    by simp
  from executeJob_raised [OF this] obtain w' where
    w': "executeJob E (job_id j) (name j) (schedule j) ?w0 = Some w'" "jobs w' = jobs ?w0"
    by blast
  have "run_jobs E now (j # rest) w = run_jobs E now rest w'"
    using due w' by simp
  moreover have "settles E \<longrightarrow> run_jobs E now (j # rest) w \<noteq> None"
    using run_jobs_returns [of E now "j # rest" w] by auto
  moreover have "\<forall>now' \<ge> now. shouldJobRun (cron_validate E) j now'"
    using due shouldJobRun_mono by blast
  ultimately show ?thesis
    using w' by auto
qed

theorem failed_dispatch_keeps_job_due_witness:
  "shouldJobRun (cron_validate strict_env) test_job 118800000 \<and>
   factory strict_env (name test_job) = Inl (UnknownJobName ''Execution Test Job'') \<and>
   settles strict_env \<and>
   run_jobs strict_env 118800000 [test_job, daily_job]
       \<lparr>jobs = [test_job, daily_job], clock = 118800000, logs = []\<rparr> =
     Some \<lparr>jobs = [test_job,
                   daily_job\<lparr>lastRun := Some 118800000, nextRun := Some 205200000,
                              updatedAt := 118802000\<rparr>],
           clock = 118802000,
           logs = [RunningJob ''Execution Test Job'' 1,
                   ErrorExecuting 1 (UnknownJobName ''Execution Test Job''),
                   RunningJob ''Daily Email Notification'' 2,
                   JobCompleted 2 205200000]\<rparr> \<and>
   shouldJobRun (cron_validate strict_env) test_job 118860000"
proof -
  have due: "shouldJobRun (cron_validate strict_env) test_job 118800000"
    by (simp add: shouldJobRun_def test_job_def)
  have fails: "factory strict_env (name test_job) = Inl (UnknownJobName ''Execution Test Job'')"
    by (simp add: strict_env_def test_job_def createJob_part_005_def toLowerCase_def)
  have run: "run_jobs strict_env 118800000 [test_job, daily_job]
       \<lparr>jobs = [test_job, daily_job], clock = 118800000, logs = []\<rparr> =
     Some \<lparr>jobs = [test_job,
                   daily_job\<lparr>lastRun := Some 118800000, nextRun := Some 205200000,
                              updatedAt := 118802000\<rparr>],
           clock = 118802000,
           logs = [RunningJob ''Execution Test Job'' 1,
                   ErrorExecuting 1 (UnknownJobName ''Execution Test Job''),
                   RunningJob ''Daily Email Notification'' 2,
                   JobCompleted 2 205200000]\<rparr>"
    by (simp add: test_job_def daily_job_def strict_env_def shouldJobRun_def executeJob_def
        createJob_part_005_def toLowerCase_def EmailJob_def calculateNextRun_def
        setHours_eq setDate_next_eq getHours_eq msPerDay_def msPerHour_def
        job_update_def apply_data_def no_data_def Let_def)
  from failed_dispatch_keeps_job_due [of strict_env test_job 118800000
      "UnknownJobName ''Execution Test Job''"
      "\<lparr>jobs = [test_job, daily_job], clock = 118800000, logs = []\<rparr>" "[daily_job]"]
    due fails
  have "shouldJobRun (cron_validate strict_env) test_job 118860000"
    by auto
  with due fails run settles_strict_env show ?thesis
    by simp
qed

end
